theory Spec2Isabelle
  imports Complex_Main "HOL-Library.Word"
begin

section \<open>Theremin Hero: the FM oscillator and its key handler\<close>

text \<open>
  A shallow embedding of \<^verbatim>\<open>theremingame.c\<close> (the game) and of the callback of
  \<^verbatim>\<open>sdltest.c\<close> (the earlier sound test).

  Conventions of the embedding.
  \<^item> C \<^verbatim>\<open>double\<close> and \<^verbatim>\<open>float\<close> values are real numbers and their arithmetic is
    exact; \<^verbatim>\<open>M_PI\<close> is the number \<open>pi\<close>, \<^verbatim>\<open>sin\<close> the real sine. Rounding of
    floating-point operations is not part of the model.
  \<^item> C \<^verbatim>\<open>int\<close> values are integers. The only integer arithmetic of the program is
    \<open>pitchindex \<plusminus> 1\<close> behind the guards \<open>< 7\<close> and \<open>> 0\<close>, and \<open>(flag + 1) % 2\<close>
    on flags that are 0 or 1 in every state the game can be in, so nothing overflows.
  \<^item> \<^verbatim>\<open>short\<close> samples are 16-bit words, read as two's complement by \<open>sint\<close>.
  \<^item> Behaviour that C leaves undefined (a read outside \<^verbatim>\<open>pitches\<close>, a conversion of
    an out-of-range \<^verbatim>\<open>double\<close> to \<^verbatim>\<open>short\<close>) and a negative byte count, whose
    conversion to \<^verbatim>\<open>size_t\<close> depends on the platform, are the result \<open>None\<close>.
\<close>

subsection \<open>Constants and globals\<close>

definition M_PI :: real where
  "M_PI = pi"

definition TAU :: real where
  "TAU = 2 * M_PI"

definition PIANO :: real where
  "PIANO = 2"

definition GUITAR :: real where
  "GUITAR = 0.5"

definition pitches :: "real list" where
  "pitches = [261.63, 293.66, 329.63, 349.23, 392.00, 440.00, 493.88, 523.25]"

type_synonym short = "16 word"

text \<open>The struct \<^verbatim>\<open>wavedata\<close> of \<^verbatim>\<open>theremingame.c\<close>.\<close>

record wavedata =
  carrier_phase :: real
  modulator_phase :: real
  modulator_amplitude :: real
  pitchindex :: int
  modulator_pitch :: int

text \<open>
  The program state: the globals \<^verbatim>\<open>quit\<close>, \<^verbatim>\<open>instr\<close>, \<^verbatim>\<open>colorblind\<close> and
  \<^verbatim>\<open>mute\<close>, the \<^verbatim>\<open>wavedata\<close> object of \<^verbatim>\<open>main\<close> that both the key handler and the
  audio callback receive by pointer, and the numbers printed by \<^verbatim>\<open>printf\<close>.
\<close>

record state =
  quit :: int
  instr :: real
  colorblind :: int
  mute :: int
  userdata :: wavedata
  printed :: "int list"

text \<open>The fields of \<^verbatim>\<open>SDL_AudioSpec\<close> that \<^verbatim>\<open>createWant\<close> sets (the callback apart).\<close>

datatype audio_format = AUDIO_S16SYS | AUDIO_F32

record audiospec =
  freq :: int
  format :: audio_format
  channels :: int
  samples :: int

datatype keycode =
  SDLK_ESCAPE | SDLK_q | SDLK_UP | SDLK_DOWN | SDLK_BACKSPACE | SDLK_i | SDLK_m
  | SDLK_other int

subsection \<open>C arithmetic\<close>

text \<open>Conversion of a \<^verbatim>\<open>double\<close> to an integer type discards the fractional part.\<close>

definition trunc0 :: "real \<Rightarrow> int" where
  "trunc0 x = (if 0 \<le> x then \<lfloor>x\<rfloor> else \<lceil>x\<rceil>)"

definition double_to_short :: "real \<Rightarrow> short option" where
  "double_to_short x =
     (let k = trunc0 x
      in if - 32768 \<le> k \<and> k \<le> 32767 then Some (word_of_int k) else None)"

definition double_to_int :: "real \<Rightarrow> int" where
  "double_to_int x = trunc0 x"

text \<open>\<^verbatim>\<open>fmod(x, y)\<close>: \<open>x - n * y\<close> with \<open>n\<close> the quotient \<open>x / y\<close> truncated towards zero.\<close>

definition fmod :: "real \<Rightarrow> real \<Rightarrow> real" where
  "fmod x y = x - of_int (trunc0 (x / y)) * y"

text \<open>The operator \<^verbatim>\<open>%\<close> on \<^verbatim>\<open>int\<close>: the remainder of the truncating division.\<close>

definition c_rem :: "int \<Rightarrow> int \<Rightarrow> int" where
  "c_rem a b = sgn a * (\<bar>a\<bar> mod \<bar>b\<bar>)"

subsection \<open>The audio callback of \<^verbatim>\<open>theremingame.c\<close>\<close>

text \<open>
  The loop that fills the buffer. \<open>dest\<close> holds the samples written so far, those of
  the indices below \<open>i\<close>.
\<close>

function fill_buffer ::
  "real \<Rightarrow> real \<Rightarrow> real \<Rightarrow> real \<Rightarrow> real \<Rightarrow> int \<Rightarrow> int \<Rightarrow> short list \<Rightarrow> short list option"
where
  "fill_buffer m_amplitude m_pitch m_phase c_pitch c_phase size' i dest =
     (if i < size' then
        (case double_to_short
                (sin (m_amplitude * sin (m_pitch * TAU * of_int i / 48000 + m_phase)
                      + c_pitch * TAU * of_int i / 48000 + c_phase) * 32767) of
           None \<Rightarrow> None
         | Some v \<Rightarrow>
             fill_buffer m_amplitude m_pitch m_phase c_pitch c_phase size' (i + 1) (dest @ [v]))
      else Some dest)"
  by pat_completeness auto
termination
  by (relation "measure (\<lambda>(ma, mp, mph, cp, cph, size', i, dest). nat (size' - i))") auto

declare fill_buffer.simps [simp del]

definition generateWaveform :: "state \<Rightarrow> int \<Rightarrow> (short list \<times> state) option" where
  "generateWaveform s len =
     (if len < 0 then None
      else
        let size' = len div 2;
            wave_data = userdata s
        in if pitchindex wave_data < 0 \<or> 8 \<le> pitchindex wave_data then None
           else
             let c_pitch = pitches ! nat (pitchindex wave_data);
                 c_phase = carrier_phase wave_data;
                 m_pitch = instr s * c_pitch;
                 m_phase = modulator_phase wave_data;
                 m_amplitude = modulator_amplitude wave_data
             in case fill_buffer m_amplitude m_pitch m_phase c_pitch c_phase size' 0 [] of
                  None \<Rightarrow> None
                | Some dest \<Rightarrow>
                    Some (dest,
                      s\<lparr>userdata := wave_data
                          \<lparr>carrier_phase := fmod (c_pitch * TAU * of_int size' / 48000 + c_phase) TAU,
                           modulator_phase := fmod (m_pitch * TAU * of_int size' / 48000 + m_phase) TAU\<rparr>\<rparr>))"

subsection \<open>Initialisation\<close>

definition createWant :: "real \<Rightarrow> audiospec \<times> wavedata" where
  "createWant instr0 =
     (\<lparr>freq = 48000, format = AUDIO_S16SYS, channels = 1, samples = 800\<rparr>,
      \<lparr>carrier_phase = 0.0, modulator_phase = 0.0, modulator_amplitude = 0.4,
       pitchindex = 0, modulator_pitch = double_to_int (instr0 * 440)\<rparr>)"

text \<open>The state of \<^verbatim>\<open>main\<close> when the game loop starts.\<close>

definition initial_state :: state where
  "initial_state =
     \<lparr>quit = 0, instr = PIANO, colorblind = 0, mute = 0,
      userdata = snd (createWant PIANO), printed = []\<rparr>"

subsection \<open>The key handler\<close>

definition updateWavedata :: "wavedata \<Rightarrow> int \<Rightarrow> wavedata" where
  "updateWavedata w newPitch = w\<lparr>pitchindex := newPitch\<rparr>"

definition checkKey :: "keycode \<Rightarrow> state \<Rightarrow> state" where
  "checkKey key s =
     (let p = pitchindex (userdata s)
      in if key = SDLK_ESCAPE \<or> key = SDLK_q then s\<lparr>quit := 1\<rparr>
         else if key = SDLK_UP \<and> p < 7 then
           s\<lparr>userdata := updateWavedata (userdata s) (p + 1), printed := printed s @ [p]\<rparr>
         else if key = SDLK_DOWN \<and> p > 0 then
           s\<lparr>userdata := updateWavedata (userdata s) (p - 1), printed := printed s @ [p]\<rparr>
         else if key = SDLK_BACKSPACE then s\<lparr>colorblind := c_rem (colorblind s + 1) 2\<rparr>
         else if key = SDLK_i then
           s\<lparr>instr := (if instr s = PIANO then GUITAR else PIANO),
             userdata := updateWavedata (userdata s) p\<rparr>
         else if key = SDLK_m then s\<lparr>mute := c_rem (mute s + 1) 2\<rparr>
         else s)"

subsection \<open>The audio callback of \<^verbatim>\<open>sdltest.c\<close>\<close>

text \<open>
  The sound test has its own \<^verbatim>\<open>wavedata\<close> struct, with the two pitches stored as
  \<^verbatim>\<open>int\<close>, and writes \<^verbatim>\<open>float\<close> samples without scaling.
\<close>

record sdltest_wavedata =
  t_carrier_phase :: real
  t_modulator_phase :: real
  t_modulator_amplitude :: real
  t_carrier_pitch :: int
  t_modulator_pitch :: int

definition sdltest_generateWaveform ::
  "sdltest_wavedata \<Rightarrow> int \<Rightarrow> (real list \<times> sdltest_wavedata) option"
where
  "sdltest_generateWaveform wave_data len =
     (if len < 0 then None
      else
        let size' = len div 4;
            carrier_pitch = t_carrier_pitch wave_data;
            carrier_phase = t_carrier_phase wave_data;
            modulator_pitch = t_modulator_pitch wave_data;
            modulator_phase = t_modulator_phase wave_data;
            modulator_amplitude = t_modulator_amplitude wave_data;
            dest = map (\<lambda>i. sin (modulator_amplitude
                                   * sin (of_int modulator_pitch * (2 * M_PI) * of_int i / 48000
                                          + modulator_phase)
                                 + of_int carrier_pitch * (2 * M_PI) * of_int i / 48000
                                 + carrier_phase))
                       [0..size' - 1]
        in Some (dest,
             wave_data
               \<lparr>t_carrier_phase :=
                  fmod (of_int carrier_pitch * (2 * M_PI) * of_int size' / 48000 + carrier_phase)
                       (2 * M_PI),
                t_modulator_phase :=
                  fmod (of_int modulator_pitch * (2 * M_PI) * of_int size' / 48000 + modulator_phase)
                       (2 * M_PI),
                t_modulator_amplitude :=
                  (if modulator_amplitude > 0 then modulator_amplitude - 0.0066666666
                   else 0.4)\<rparr>))"

text \<open>The \<^verbatim>\<open>wavedata\<close> that the \<^verbatim>\<open>main\<close> of \<^verbatim>\<open>sdltest.c\<close> hands to the audio device.\<close>

definition sdltest_initial :: sdltest_wavedata where
  "sdltest_initial =
     \<lparr>t_carrier_phase = 0.0, t_modulator_phase = 0.0, t_modulator_amplitude = 0.4,
      t_carrier_pitch = 1000, t_modulator_pitch = 500\<rparr>"

text \<open>
  \<open>n\<close> consecutive callbacks, each for a buffer of \<open>len\<close> bytes; the buffers are played
  and dropped.
\<close>

fun sdltest_callbacks :: "nat \<Rightarrow> int \<Rightarrow> sdltest_wavedata \<Rightarrow> sdltest_wavedata option" where
  "sdltest_callbacks 0 len w = Some w"
| "sdltest_callbacks (Suc n) len w =
     (case sdltest_generateWaveform w len of
        None \<Rightarrow> None
      | Some (dest, w') \<Rightarrow> sdltest_callbacks n len w')"

subsection \<open>The states the game can be in\<close>

text \<open>
  The game loop handles key presses with \<open>checkKey\<close> while the audio device calls
  \<open>generateWaveform\<close> with buffers of its choice; both act on the same state.
\<close>

inductive reachable :: "state \<Rightarrow> bool" where
  reachable_init: "reachable initial_state"
| reachable_key: "reachable s \<Longrightarrow> reachable (checkKey key s)"
| reachable_render: "reachable s \<Longrightarrow> generateWaveform s len = Some (dest, s') \<Longrightarrow> reachable s'"

subsection \<open>The formulas of the specification\<close>

text \<open>
  The sample of index \<open>i\<close> as the specification writes it, with the sample rate 48000,
  before its conversion to the sample type of the buffer.
\<close>

definition fm_sample :: "real \<Rightarrow> real \<Rightarrow> real \<Rightarrow> real \<Rightarrow> real \<Rightarrow> real \<Rightarrow> int \<Rightarrow> real" where
  "fm_sample amplitudeScale modulatorAmplitude modulatorPitch modulatorPhase
             carrierPitch carrierPhase i =
     amplitudeScale
     * sin (modulatorAmplitude
              * sin (2 * pi * modulatorPitch * of_int i / 48000 + modulatorPhase)
            + 2 * pi * carrierPitch * of_int i / 48000 + carrierPhase)"

text \<open>The remainder \<open>x mod y\<close> on the reals, the one that lies in \<open>[0, y)\<close> for \<open>y > 0\<close>.\<close>

definition real_mod :: "real \<Rightarrow> real \<Rightarrow> real" where
  "real_mod x y = x - of_int \<lfloor>x / y\<rfloor> * y"

definition carrierPitch :: "state \<Rightarrow> real" where
  "carrierPitch s = pitches ! nat (pitchindex (userdata s))"

definition modulatorPitch :: "state \<Rightarrow> real" where
  "modulatorPitch s = instr s * carrierPitch s"

definition pitch_in_range :: "state \<Rightarrow> bool" where
  "pitch_in_range s \<longleftrightarrow> 0 \<le> pitchindex (userdata s) \<and> pitchindex (userdata s) < 8"

text \<open>
  The buffer of \<open>n\<close> samples that the specification's formula gives for a state, each
  value converted to \<^verbatim>\<open>short\<close> as the callback's assignment to \<^verbatim>\<open>dest[i]\<close> does.
\<close>

definition rendered :: "state \<Rightarrow> int \<Rightarrow> short list" where
  "rendered s n = map (\<lambda>j. word_of_int (trunc0 (fm_sample 32767 (modulator_amplitude (userdata s))
        (modulatorPitch s) (modulator_phase (userdata s)) (carrierPitch s)
        (carrier_phase (userdata s)) j))) [0..n - 1]"

text \<open>
  The advance of a phase over a buffer of \<open>S\<close> samples, as the specification writes it.
\<close>

definition phase_after :: "real \<Rightarrow> real \<Rightarrow> int \<Rightarrow> real" where
  "phase_after phase pitch S = real_mod (phase + 2 * pi * pitch * of_int S / 48000) (2 * pi)"

text \<open>
  The invariant of the data model: the pitch index is an index of the scale table, the
  instrument is one of the two presets, the flags are 0 or 1, and both phases are
  reduced into \<open>[0, 2\<pi>)\<close>.
\<close>

definition state_inv :: "state \<Rightarrow> bool" where
  "state_inv s \<longleftrightarrow>
     pitch_in_range s \<and> (instr s = PIANO \<or> instr s = GUITAR)
     \<and> (colorblind s = 0 \<or> colorblind s = 1) \<and> (mute s = 0 \<or> mute s = 1)
     \<and> 0 \<le> carrier_phase (userdata s) \<and> carrier_phase (userdata s) < 2 * pi
     \<and> 0 \<le> modulator_phase (userdata s) \<and> modulator_phase (userdata s) < 2 * pi"

text \<open>
  The state that the callback leaves after a buffer of \<open>n\<close> samples: both phases advanced
  and reduced with \<open>fmod\<close>, every other field as it was.
\<close>

definition advanced :: "state \<Rightarrow> int \<Rightarrow> state" where
  "advanced s n =
     s\<lparr>userdata := (userdata s)
        \<lparr>carrier_phase :=
           fmod (carrierPitch s * TAU * of_int n / 48000 + carrier_phase (userdata s)) TAU,
         modulator_phase :=
           fmod (modulatorPitch s * TAU * of_int n / 48000 + modulator_phase (userdata s)) TAU\<rparr>\<rparr>"

text \<open>
  The envelope of the modulation amplitude, as the specification writes it: one fixed step
  down while the amplitude is positive, back to the maximum otherwise.
\<close>

definition envelope_step :: "real \<Rightarrow> real" where
  "envelope_step a = (if a > 0 then a - 0.0066666666 else 0.4)"

text \<open>
  A state of the game with the carrier phase at 0.4 radians and everything else as at the
  start.
\<close>

definition phase_two_fifths :: state where
  "phase_two_fifths = initial_state\<lparr>userdata := (userdata initial_state)\<lparr>carrier_phase := 0.4\<rparr>\<rparr>"

section \<open>Properties\<close>

subsection \<open>Conversions and remainders\<close>

lemma trunc0_abs_le: "\<bar>x\<bar> \<le> of_int n \<Longrightarrow> \<bar>trunc0 x\<bar> \<le> n"
proof (cases "0 \<le> x")
  case True
  assume "\<bar>x\<bar> \<le> of_int n"
  with True have "0 \<le> \<lfloor>x\<rfloor>" "\<lfloor>x\<rfloor> \<le> n"
    by (simp_all add: floor_le_iff)
  with True show ?thesis by (simp add: trunc0_def)
next
  case False
  assume "\<bar>x\<bar> \<le> of_int n"
  with False have "\<lceil>x\<rceil> \<le> 0" "- n \<le> \<lceil>x\<rceil>"
    by (simp_all add: ceiling_le_iff le_ceiling_iff)
  with False show ?thesis by (simp add: trunc0_def)
qed

lemma trunc0_sin_bounds:
  "- 32767 \<le> trunc0 (sin y * 32767) \<and> trunc0 (sin y * 32767) \<le> 32767"
proof -
  have "\<bar>sin y * 32767\<bar> \<le> of_int 32767"
    using abs_sin_le_one [of y] by (simp add: abs_mult)
  from trunc0_abs_le [OF this] show ?thesis by linarith
qed

lemma double_to_short_sin:
  "double_to_short (sin y * 32767) = Some (word_of_int (trunc0 (sin y * 32767)))"
  using trunc0_sin_bounds [of y] by (simp add: double_to_short_def Let_def)

lemma sint_short_of_int:
  "- 32768 \<le> k \<Longrightarrow> k \<le> 32767 \<Longrightarrow> sint (word_of_int k :: short) = k"
  by (simp add: signed_of_int signed_take_bit_int_eq_self)

subsection \<open>The callback in closed form\<close>

lemma TAU_eq: "TAU = 2 * pi"
  by (simp add: TAU_def M_PI_def)

lemma TAU_pos: "0 < TAU"
  by (simp add: TAU_eq)

lemma source_sample_eq:
  "sin (ma * sin (mp * TAU * of_int i / 48000 + mph) + cp * TAU * of_int i / 48000 + cph) * 32767
     = fm_sample 32767 ma mp mph cp cph i"
  by (simp add: fm_sample_def TAU_eq mult_ac)

lemma fill_buffer_eq:
  "fill_buffer ma mp mph cp cph sz i dest =
     Some (dest @ map (\<lambda>j. word_of_int (trunc0 (fm_sample 32767 ma mp mph cp cph j))) [i..sz - 1])"
proof (induction ma mp mph cp cph sz i dest rule: fill_buffer.induct)
  case (1 ma mp mph cp cph sz i dest)
  show ?case
  proof (cases "i < sz")
    case True
    have up: "[i..sz - 1] = i # [i + 1..sz - 1]"
      using True by (simp add: upto_rec1)
    show ?thesis
      using True "1.IH" [OF True double_to_short_sin]
      by (subst fill_buffer.simps) (simp add: double_to_short_sin up source_sample_eq [symmetric])
  next
    case False
    then show ?thesis
      by (subst fill_buffer.simps) simp
  qed
qed

lemma fmod_eq_real_mod: "0 \<le> x \<Longrightarrow> 0 < y \<Longrightarrow> fmod x y = real_mod x y"
  by (simp add: fmod_def real_mod_def trunc0_def)

lemma real_mod_range: "0 < y \<Longrightarrow> 0 \<le> real_mod x y \<and> real_mod x y < y"
  using floor_divide_lower [of y x] floor_divide_upper [of y x]
  by (simp add: real_mod_def algebra_simps)

lemma fmod_id: "0 \<le> x \<Longrightarrow> x < y \<Longrightarrow> fmod x y = x"
proof -
  assume x: "0 \<le> x" "x < y"
  then have "\<lfloor>x / y\<rfloor> = 0"
    by (simp add: floor_eq_iff)
  with x show ?thesis
    by (simp add: fmod_def trunc0_def)
qed

lemma sin_add_fmod: "sin (a + fmod x TAU) = sin (a + x)"
proof -
  have "a + fmod x TAU = (a + x) - (2 * pi) * of_int (trunc0 (x / TAU))"
    by (simp add: fmod_def TAU_eq)
  then show ?thesis
    by (simp only: sin_diff sin_int_2pin cos_int_2pin mult_1_right mult_zero_right diff_zero)
qed

lemma pitches_pos: "0 \<le> k \<Longrightarrow> k < 8 \<Longrightarrow> 0 < pitches ! nat k"
proof -
  assume "0 \<le> k" "k < 8"
  then have "nat k \<in> {0, 1, 2, 3, 4, 5, 6, 7}" by auto
  then show ?thesis
    by (auto simp: pitches_def)
qed

lemma generateWaveform_eq:
  assumes "0 \<le> len" and "pitch_in_range s"
  shows "generateWaveform s len =
     Some (rendered s (len div 2),
       s\<lparr>userdata := (userdata s)
          \<lparr>carrier_phase :=
             fmod (carrierPitch s * TAU * of_int (len div 2) / 48000 + carrier_phase (userdata s)) TAU,
           modulator_phase :=
             fmod (modulatorPitch s * TAU * of_int (len div 2) / 48000 + modulator_phase (userdata s)) TAU\<rparr>\<rparr>)"
  using assms
  by (simp add: generateWaveform_def pitch_in_range_def Let_def fill_buffer_eq rendered_def
      carrierPitch_def modulatorPitch_def)

lemma generateWaveform_SomeD:
  "generateWaveform s len = Some r \<Longrightarrow> 0 \<le> len \<and> pitch_in_range s"
  by (auto simp: generateWaveform_def pitch_in_range_def Let_def split: if_splits)

subsection \<open>The invariant holds in every state the game can be in\<close>

lemma c_rem_toggle: "c_rem (0 + 1) 2 = 1" "c_rem (1 + 1) 2 = 0"
  by (simp_all add: c_rem_def)

lemma state_inv_initial: "state_inv initial_state"
  by (simp add: state_inv_def initial_state_def createWant_def pitch_in_range_def PIANO_def)

lemma state_inv_checkKey: "state_inv s \<Longrightarrow> state_inv (checkKey key s)"
  by (auto simp: state_inv_def checkKey_def Let_def updateWavedata_def pitch_in_range_def
      c_rem_def)

lemma carrierPitch_pos: "pitch_in_range s \<Longrightarrow> 0 < carrierPitch s"
  by (simp add: pitch_in_range_def carrierPitch_def pitches_pos)

lemma modulatorPitch_pos: "state_inv s \<Longrightarrow> 0 < modulatorPitch s"
  by (auto simp: state_inv_def modulatorPitch_def carrierPitch_pos PIANO_def GUITAR_def)

lemma fmod_range: "0 \<le> x \<Longrightarrow> 0 \<le> fmod x (2 * pi) \<and> fmod x (2 * pi) < 2 * pi"
  using real_mod_range [of "2 * pi" x] by (simp add: fmod_eq_real_mod)

lemma advance_nonneg: "0 < p \<Longrightarrow> 0 \<le> n \<Longrightarrow> 0 \<le> ph \<Longrightarrow> 0 \<le> p * TAU * of_int n / 48000 + ph"
  by (simp add: TAU_eq)

lemma state_inv_generateWaveform:
  assumes "state_inv s" and "generateWaveform s len = Some (dest, s')"
  shows "state_inv s'"
proof -
  from assms(2) have len: "0 \<le> len" and pr: "pitch_in_range s"
    using generateWaveform_SomeD by blast+
  have n: "0 \<le> len div 2" using len by simp
  have c: "0 \<le> carrierPitch s * TAU * of_int (len div 2) / 48000 + carrier_phase (userdata s)"
    using assms(1) n by (intro advance_nonneg carrierPitch_pos) (simp_all add: state_inv_def)
  have m: "0 \<le> modulatorPitch s * TAU * of_int (len div 2) / 48000 + modulator_phase (userdata s)"
    using assms(1) n by (intro advance_nonneg modulatorPitch_pos) (simp_all add: state_inv_def)
  from assms(2) have s': "s' = s\<lparr>userdata := (userdata s)
          \<lparr>carrier_phase :=
             fmod (carrierPitch s * TAU * of_int (len div 2) / 48000 + carrier_phase (userdata s)) TAU,
           modulator_phase :=
             fmod (modulatorPitch s * TAU * of_int (len div 2) / 48000 + modulator_phase (userdata s)) TAU\<rparr>\<rparr>"
    by (simp add: generateWaveform_eq [OF len pr])
  show ?thesis
    using assms(1) fmod_range [OF c] fmod_range [OF m]
    by (simp add: s' state_inv_def pitch_in_range_def TAU_eq)
qed

lemma reachable_state_inv: "reachable s \<Longrightarrow> state_inv s"
  by (induction rule: reachable.induct)
    (simp_all add: state_inv_initial state_inv_checkKey state_inv_generateWaveform)

subsection \<open>The samples and the phases\<close>

lemma initial_in_range: "pitch_in_range initial_state"
  using state_inv_initial by (simp add: state_inv_def)

lemma length_rendered: "length (rendered s n) = nat n"
  by (simp add: rendered_def)

lemma rendered_nth:
  "0 \<le> i \<Longrightarrow> i < n \<Longrightarrow>
   rendered s n ! nat i =
     word_of_int (trunc0 (fm_sample 32767 (modulator_amplitude (userdata s)) (modulatorPitch s)
       (modulator_phase (userdata s)) (carrierPitch s) (carrier_phase (userdata s)) i))"
  by (simp add: rendered_def)

lemma trunc0_fm_sample_bounds:
  "- 32767 \<le> trunc0 (fm_sample 32767 ma mp mph cp cph i)
   \<and> trunc0 (fm_sample 32767 ma mp mph cp cph i) \<le> 32767"
  using trunc0_sin_bounds by (simp add: source_sample_eq [symmetric])

lemma sint_rendered:
  "v \<in> set (rendered s n) \<Longrightarrow> - 32767 \<le> sint v \<and> sint v \<le> 32767"
proof -
  assume "v \<in> set (rendered s n)"
  then obtain j where v: "v = word_of_int (trunc0 (fm_sample 32767 (modulator_amplitude (userdata s))
      (modulatorPitch s) (modulator_phase (userdata s)) (carrierPitch s)
      (carrier_phase (userdata s)) j))"
    by (auto simp: rendered_def)
  have b: "- 32767 \<le> trunc0 (fm_sample 32767 (modulator_amplitude (userdata s))
      (modulatorPitch s) (modulator_phase (userdata s)) (carrierPitch s)
      (carrier_phase (userdata s)) j)
    \<and> trunc0 (fm_sample 32767 (modulator_amplitude (userdata s))
      (modulatorPitch s) (modulator_phase (userdata s)) (carrierPitch s)
      (carrier_phase (userdata s)) j) \<le> 32767"
    by (rule trunc0_fm_sample_bounds)
  then have "sint v = trunc0 (fm_sample 32767 (modulator_amplitude (userdata s))
      (modulatorPitch s) (modulator_phase (userdata s)) (carrierPitch s)
      (carrier_phase (userdata s)) j)"
    unfolding v by (intro sint_short_of_int) simp_all
  with b show ?thesis by simp
qed

lemma generateWaveform_advanced:
  "0 \<le> len \<Longrightarrow> pitch_in_range s \<Longrightarrow>
   generateWaveform s len = Some (rendered s (len div 2), advanced s (len div 2))"
  by (simp add: generateWaveform_eq advanced_def)

lemma advanced_simps:
  "pitch_in_range (advanced s n) = pitch_in_range s"
  "carrierPitch (advanced s n) = carrierPitch s"
  "modulatorPitch (advanced s n) = modulatorPitch s"
  "modulator_amplitude (userdata (advanced s n)) = modulator_amplitude (userdata s)"
  "carrier_phase (userdata (advanced s n)) =
     fmod (carrierPitch s * TAU * of_int n / 48000 + carrier_phase (userdata s)) TAU"
  "modulator_phase (userdata (advanced s n)) =
     fmod (modulatorPitch s * TAU * of_int n / 48000 + modulator_phase (userdata s)) TAU"
  by (simp_all add: advanced_def pitch_in_range_def carrierPitch_def modulatorPitch_def)

lemma fm_sample_shift:
  "fm_sample a ma mp (fmod (mp * TAU * of_int n / 48000 + mph) TAU)
                  cp (fmod (cp * TAU * of_int n / 48000 + cph) TAU) j
   = fm_sample a ma mp mph cp cph (n + j)"
proof -
  have inner: "sin (2 * pi * mp * of_int j / 48000 + fmod (mp * TAU * of_int n / 48000 + mph) TAU)
      = sin (2 * pi * mp * of_int (n + j) / 48000 + mph)"
  proof -
    have "2 * pi * mp * of_int j / 48000 + (mp * TAU * of_int n / 48000 + mph)
        = 2 * pi * mp * of_int (n + j) / 48000 + mph"
      by (simp add: TAU_eq algebra_simps)
    then show ?thesis
      by (simp only: sin_add_fmod)
  qed
  have outer: "sin (x + 2 * pi * cp * of_int j / 48000 + fmod (cp * TAU * of_int n / 48000 + cph) TAU)
      = sin (x + 2 * pi * cp * of_int (n + j) / 48000 + cph)" for x
  proof -
    have "x + 2 * pi * cp * of_int j / 48000 + (cp * TAU * of_int n / 48000 + cph)
        = x + 2 * pi * cp * of_int (n + j) / 48000 + cph"
      by (simp add: TAU_eq algebra_simps)
    then show ?thesis
      by (simp only: sin_add_fmod)
  qed
  show ?thesis
    unfolding fm_sample_def by (simp only: inner outer)
qed

lemma upto_shift: "map f [n..n + m - 1] = map (\<lambda>j. f (n + j)) [0..m - 1]"
proof (rule nth_equalityI)
  show "length (map f [n..n + m - 1]) = length (map (\<lambda>j. f (n + j)) [0..m - 1])"
    by simp
next
  fix k assume "k < length (map f [n..n + m - 1])"
  then have k: "int k < m" by simp
  then have "n + int k \<le> n + m - 1" "0 + int k \<le> m - 1" by simp_all
  then have "[n..n + m - 1] ! k = n + int k" "[0..m - 1] ! k = 0 + int k"
    by (simp_all only: nth_upto)
  with k show "map f [n..n + m - 1] ! k = map (\<lambda>j. f (n + j)) [0..m - 1] ! k"
    by simp
qed

lemma upto_append: "0 \<le> n \<Longrightarrow> 0 \<le> m \<Longrightarrow> [0..n + m - 1] = [0..n - 1] @ [n..n + m - 1]"
  using upto_split2 [of 0 "n - 1" "n + m - 1"]
  by (cases "n = 0") simp_all

lemma rendered_append:
  assumes "0 \<le> n" and "0 \<le> m"
  shows "rendered s (n + m) = rendered s n @ rendered (advanced s n) m"
proof -
  have "rendered (advanced s n) m =
      map (\<lambda>j. word_of_int (trunc0 (fm_sample 32767 (modulator_amplitude (userdata s))
        (modulatorPitch s) (modulator_phase (userdata s)) (carrierPitch s)
        (carrier_phase (userdata s)) j))) [n..n + m - 1]"
    unfolding rendered_def advanced_simps fm_sample_shift
    by (rule upto_shift [symmetric])
  then show ?thesis
    by (simp add: rendered_def upto_append [OF assms])
qed

text \<open>
  Claim C9 (samples fit the signed 16-bit type). Every value that the callback of
  \<^verbatim>\<open>theremingame.c\<close> writes lies in the closed interval from -32767 to 32767. The loop
  never reaches a conversion that overflows, whatever its parameters, start index and
  buffer length are; so the callback returns a buffer for every state with a pitch index
  in range and every byte count that is not negative.
\<close>

theorem samples_in_short_range:
  "fill_buffer m_amplitude m_pitch m_phase c_pitch c_phase n i dest0 \<noteq> None
   \<and> (0 \<le> len \<and> pitch_in_range s \<longrightarrow> generateWaveform s len \<noteq> None)
   \<and> (generateWaveform s len = Some (dest, s') \<longrightarrow>
        (\<forall>v \<in> set dest. - 32767 \<le> sint v \<and> sint v \<le> 32767))"
proof -
  have "generateWaveform s len = Some (dest, s') \<longrightarrow>
        (\<forall>v \<in> set dest. - 32767 \<le> sint v \<and> sint v \<le> 32767)"
  proof
    assume g: "generateWaveform s len = Some (dest, s')"
    then have "0 \<le> len" "pitch_in_range s"
      using generateWaveform_SomeD by blast+
    from g generateWaveform_eq [OF this] have "dest = rendered s (len div 2)"
      by simp
    then show "\<forall>v \<in> set dest. - 32767 \<le> sint v \<and> sint v \<le> 32767"
      using sint_rendered by blast
  qed
  then show ?thesis
    by (simp add: fill_buffer_eq generateWaveform_eq)
qed

theorem samples_in_short_range_witness:
  "generateWaveform initial_state 1600 \<noteq> None
   \<and> - 32767 \<le> sint (fst (the (generateWaveform initial_state 1600)) ! 0)
   \<and> sint (fst (the (generateWaveform initial_state 1600)) ! 0) \<le> 32767
   \<and> - 32767 \<le> sint (fst (the (generateWaveform initial_state 1600)) ! 799)
   \<and> sint (fst (the (generateWaveform initial_state 1600)) ! 799) \<le> 32767"
proof -
  have g: "generateWaveform initial_state 1600 =
      Some (fst (the (generateWaveform initial_state 1600)),
            snd (the (generateWaveform initial_state 1600)))"
    by (simp add: generateWaveform_eq initial_in_range)
  have "length (fst (the (generateWaveform initial_state 1600))) = 800"
    by (simp add: generateWaveform_eq initial_in_range length_rendered)
  then have m: "fst (the (generateWaveform initial_state 1600)) ! 0
        \<in> set (fst (the (generateWaveform initial_state 1600)))"
      "fst (the (generateWaveform initial_state 1600)) ! 799
        \<in> set (fst (the (generateWaveform initial_state 1600)))"
    by simp_all
  have "(0::int) \<le> 1600 \<and> pitch_in_range initial_state"
    by (simp add: initial_in_range)
  with g m samples_in_short_range [of _ _ _ _ _ _ _ "[]" 1600 initial_state
      "fst (the (generateWaveform initial_state 1600))"
      "snd (the (generateWaveform initial_state 1600))"]
  show ?thesis by blast
qed

text \<open>
  Claim C7 (an empty buffer is a no-op). With pitch index in range and both phases in
  \<open>[0, 2\<pi>)\<close>, a call whose byte count gives the sample count 0 writes no sample and
  returns the state it was given, every field unchanged.
\<close>

theorem zero_samples_noop:
  assumes "pitch_in_range s"
    and "0 \<le> carrier_phase (userdata s)" and "carrier_phase (userdata s) < 2 * pi"
    and "0 \<le> modulator_phase (userdata s)" and "modulator_phase (userdata s) < 2 * pi"
    and "0 \<le> len" and "len div 2 = 0"
  shows "generateWaveform s len = Some ([], s)"
  using assms
  by (simp add: generateWaveform_eq rendered_def fmod_id TAU_eq)

theorem zero_samples_noop_witness:
  "generateWaveform initial_state 0 = Some ([], initial_state)
   \<and> generateWaveform initial_state 1 = Some ([], initial_state)"
proof -
  have i: "state_inv initial_state" by (rule state_inv_initial)
  then have h: "pitch_in_range initial_state"
    "0 \<le> carrier_phase (userdata initial_state)" "carrier_phase (userdata initial_state) < 2 * pi"
    "0 \<le> modulator_phase (userdata initial_state)"
    "modulator_phase (userdata initial_state) < 2 * pi"
    by (simp_all add: state_inv_def)
  show ?thesis
    using zero_samples_noop [OF h, of 0] zero_samples_noop [OF h, of 1] by simp
qed

text \<open>
  Claim C3 (phase continuity). For a state with pitch index in range and a positive sample
  count \<open>S\<close>, two consecutive calls for \<open>S\<close> samples each (\<open>2 * S\<close> bytes) write
  buffers whose concatenation is the buffer that one call for \<open>2 * S\<close> samples writes from
  the same state. In particular the first sample of the second buffer is the sample of
  index \<open>S\<close> of the long buffer.
\<close>

theorem phase_continuity:
  assumes "pitch_in_range s" and "0 < S"
  shows "\<exists>b1 s1 b2 s2 s12.
           generateWaveform s (2 * S) = Some (b1, s1)
           \<and> generateWaveform s1 (2 * S) = Some (b2, s2)
           \<and> generateWaveform s (2 * (2 * S)) = Some (b1 @ b2, s12)
           \<and> length b1 = nat S \<and> length b2 = nat S
           \<and> b2 ! 0 = (b1 @ b2) ! nat S"
proof -
  from assms(2) have S: "0 \<le> S" "0 \<le> 2 * S" "0 \<le> 2 * (2 * S)"
    by simp_all
  have g1: "generateWaveform s (2 * S) = Some (rendered s S, advanced s S)"
    using generateWaveform_advanced [OF S(2) assms(1)] by simp
  have g2: "generateWaveform (advanced s S) (2 * S) =
      Some (rendered (advanced s S) S, advanced (advanced s S) S)"
    using generateWaveform_advanced [OF S(2), of "advanced s S"] assms(1)
    by (simp add: advanced_simps)
  have "2 * (2 * S) div 2 = S + S" by simp
  then have "generateWaveform s (2 * (2 * S)) = Some (rendered s (S + S), advanced s (S + S))"
    using generateWaveform_advanced [OF S(3) assms(1)] by (simp only:)
  then have g12: "generateWaveform s (2 * (2 * S)) =
      Some (rendered s S @ rendered (advanced s S) S, advanced s (S + S))"
    by (simp only: rendered_append [OF S(1) S(1)])
  have "(rendered s S @ rendered (advanced s S) S) ! nat S = rendered (advanced s S) S ! 0"
    by (simp add: nth_append length_rendered)
  with g1 g2 g12 show ?thesis
    by (simp add: length_rendered)
qed

theorem phase_continuity_witness:
  "\<exists>b1 s1 b2 s2 s12.
      generateWaveform initial_state (2 * 800) = Some (b1, s1)
      \<and> generateWaveform s1 (2 * 800) = Some (b2, s2)
      \<and> generateWaveform initial_state (2 * (2 * 800)) = Some (b1 @ b2, s12)
      \<and> length b1 = nat 800 \<and> length b2 = nat 800
      \<and> b2 ! 0 = (b1 @ b2) ! nat 800"
proof -
  have "pitch_in_range initial_state" by (rule initial_in_range)
  moreover have "(0::int) < 800" by simp
  ultimately show ?thesis by (rule phase_continuity)
qed

lemma advanced_phases_real_mod:
  assumes "state_inv s" and "0 \<le> n"
  shows "carrier_phase (userdata (advanced s n)) =
           phase_after (carrier_phase (userdata s)) (carrierPitch s) n"
    and "modulator_phase (userdata (advanced s n)) =
           phase_after (modulator_phase (userdata s)) (modulatorPitch s) n"
proof -
  from assms(1) have pr: "pitch_in_range s"
    and ph: "0 \<le> carrier_phase (userdata s)" "0 \<le> modulator_phase (userdata s)"
    by (simp_all add: state_inv_def)
  have c: "0 \<le> carrierPitch s * TAU * of_int n / 48000 + carrier_phase (userdata s)"
    using assms(2) ph(1) by (intro advance_nonneg carrierPitch_pos pr)
  have m: "0 \<le> modulatorPitch s * TAU * of_int n / 48000 + modulator_phase (userdata s)"
    using assms ph(2) by (intro advance_nonneg modulatorPitch_pos)
  have two_pi: "(0::real) < 2 * pi" by simp
  show "carrier_phase (userdata (advanced s n)) =
           phase_after (carrier_phase (userdata s)) (carrierPitch s) n"
    using fmod_eq_real_mod [OF c TAU_pos]
    by (simp add: advanced_simps phase_after_def TAU_eq algebra_simps)
  show "modulator_phase (userdata (advanced s n)) =
           phase_after (modulator_phase (userdata s)) (modulatorPitch s) n"
    using fmod_eq_real_mod [OF m TAU_pos]
    by (simp add: advanced_simps phase_after_def TAU_eq algebra_simps)
qed

lemma reachable_one_buffer: "reachable (advanced initial_state 800)"
proof -
  have "generateWaveform initial_state 1600 =
      Some (rendered initial_state 800, advanced initial_state 800)"
    using generateWaveform_advanced [of 1600 initial_state] by (simp add: initial_in_range)
  with reachable_init show ?thesis by (rule reachable_render)
qed

text \<open>
  Claim C2 (phase update). After a call for \<open>S = len div 2\<close> samples the buffer is the
  one computed from the carrier and modulator pitch of the state before the call, and each
  phase is the old phase advanced by \<open>2\<pi> * pitch * S / 48000\<close> with the same pitch and
  reduced by \<open>fmod\<close> with \<open>2\<pi>\<close>. In every state the game can be in, this is the
  remainder \<open>mod 2\<pi>\<close> of the specification, and both phases lie in \<open>[0, 2\<pi>)\<close>, after any
  number of callbacks and key presses from the initial state.
\<close>

theorem phase_update:
  "(generateWaveform s len = Some (dest, s') \<longrightarrow>
      dest = rendered s (len div 2)
      \<and> carrier_phase (userdata s') =
          fmod (carrier_phase (userdata s) + 2 * pi * carrierPitch s * of_int (len div 2) / 48000)
               (2 * pi)
      \<and> modulator_phase (userdata s') =
          fmod (modulator_phase (userdata s)
                + 2 * pi * modulatorPitch s * of_int (len div 2) / 48000) (2 * pi))
   \<and> (reachable s \<and> generateWaveform s len = Some (dest, s') \<longrightarrow>
        carrier_phase (userdata s') =
          phase_after (carrier_phase (userdata s)) (carrierPitch s) (len div 2)
        \<and> modulator_phase (userdata s') =
          phase_after (modulator_phase (userdata s)) (modulatorPitch s) (len div 2))
   \<and> (reachable s \<longrightarrow>
        0 \<le> carrier_phase (userdata s) \<and> carrier_phase (userdata s) < 2 * pi
        \<and> 0 \<le> modulator_phase (userdata s) \<and> modulator_phase (userdata s) < 2 * pi)"
proof -
  have every: "dest = rendered s (len div 2)
      \<and> carrier_phase (userdata s') =
          fmod (carrier_phase (userdata s) + 2 * pi * carrierPitch s * of_int (len div 2) / 48000)
               (2 * pi)
      \<and> modulator_phase (userdata s') =
          fmod (modulator_phase (userdata s)
                + 2 * pi * modulatorPitch s * of_int (len div 2) / 48000) (2 * pi)"
    if g: "generateWaveform s len = Some (dest, s')"
  proof -
    from g have "0 \<le> len" "pitch_in_range s"
      using generateWaveform_SomeD by blast+
    from g generateWaveform_advanced [OF this]
    have "dest = rendered s (len div 2)" "s' = advanced s (len div 2)"
      by simp_all
    then show ?thesis
      by (simp add: advanced_simps TAU_eq algebra_simps)
  qed
  have reach: "carrier_phase (userdata s') =
          phase_after (carrier_phase (userdata s)) (carrierPitch s) (len div 2)
        \<and> modulator_phase (userdata s') =
          phase_after (modulator_phase (userdata s)) (modulatorPitch s) (len div 2)"
    if r: "reachable s" and g: "generateWaveform s len = Some (dest, s')"
  proof -
    from g have len: "0 \<le> len" and pr: "pitch_in_range s"
      using generateWaveform_SomeD by blast+
    from g generateWaveform_advanced [OF len pr] have s': "s' = advanced s (len div 2)"
      by simp
    have "0 \<le> len div 2" using len by simp
    from advanced_phases_real_mod [OF reachable_state_inv [OF r] this] show ?thesis
      by (simp add: s')
  qed
  have inv: "0 \<le> carrier_phase (userdata s) \<and> carrier_phase (userdata s) < 2 * pi
        \<and> 0 \<le> modulator_phase (userdata s) \<and> modulator_phase (userdata s) < 2 * pi"
    if r: "reachable s"
    using reachable_state_inv [OF r] by (simp add: state_inv_def)
  from every reach inv show ?thesis by blast
qed

theorem phase_update_witness:
  "carrier_phase (userdata (advanced initial_state 800)) = phase_after 0 261.63 800
   \<and> modulator_phase (userdata (advanced initial_state 800)) = phase_after 0 (2 * 261.63) 800
   \<and> 0 \<le> carrier_phase (userdata (advanced initial_state 800))
   \<and> carrier_phase (userdata (advanced initial_state 800)) < 2 * pi
   \<and> 0 \<le> modulator_phase (userdata (advanced initial_state 800))
   \<and> modulator_phase (userdata (advanced initial_state 800)) < 2 * pi"
proof -
  have g: "generateWaveform initial_state 1600 =
      Some (rendered initial_state 800, advanced initial_state 800)"
    using generateWaveform_advanced [of 1600 initial_state] by (simp add: initial_in_range)
  have v: "carrierPitch initial_state = 261.63" "modulatorPitch initial_state = 2 * 261.63"
    "carrier_phase (userdata initial_state) = 0" "modulator_phase (userdata initial_state) = 0"
    by (simp_all add: carrierPitch_def modulatorPitch_def initial_state_def createWant_def
        pitches_def PIANO_def)
  have "carrier_phase (userdata (advanced initial_state 800)) =
          phase_after (carrier_phase (userdata initial_state)) (carrierPitch initial_state) 800
        \<and> modulator_phase (userdata (advanced initial_state 800)) =
          phase_after (modulator_phase (userdata initial_state)) (modulatorPitch initial_state) 800"
    using phase_update [of initial_state 1600 "rendered initial_state 800"
        "advanced initial_state 800"] g reachable_init
    by simp
  moreover have "0 \<le> carrier_phase (userdata (advanced initial_state 800))
   \<and> carrier_phase (userdata (advanced initial_state 800)) < 2 * pi
   \<and> 0 \<le> modulator_phase (userdata (advanced initial_state 800))
   \<and> modulator_phase (userdata (advanced initial_state 800)) < 2 * pi"
    using phase_update [of "advanced initial_state 800" 0 "[]" initial_state]
      reachable_one_buffer by blast
  ultimately show ?thesis
    by (simp only: v)
qed

subsection \<open>The key handler\<close>

lemma checkKey_pitchindex_range:
  "0 \<le> pitchindex (userdata s) \<and> pitchindex (userdata s) \<le> 7 \<Longrightarrow>
   0 \<le> pitchindex (userdata (checkKey key s)) \<and> pitchindex (userdata (checkKey key s)) \<le> 7"
  by (auto simp: checkKey_def Let_def updateWavedata_def)

lemma fold_checkKey_pitchindex_range:
  "0 \<le> pitchindex (userdata s) \<and> pitchindex (userdata s) \<le> 7 \<Longrightarrow>
   0 \<le> pitchindex (userdata (fold checkKey keys s))
   \<and> pitchindex (userdata (fold checkKey keys s)) \<le> 7"
proof (induction keys arbitrary: s)
  case Nil
  then show ?case by simp
next
  case (Cons key keys)
  from Cons.prems have "0 \<le> pitchindex (userdata (checkKey key s))
      \<and> pitchindex (userdata (checkKey key s)) \<le> 7"
    by (rule checkKey_pitchindex_range)
  from Cons.IH [OF this] show ?case by simp
qed

text \<open>
  Claim C4 (pitch clamp). The UP key at pitch index 7, the last of the eight notes, leaves
  the index unchanged, and the DOWN key at index 0 leaves it unchanged. Below 7 the UP key
  adds exactly one, above 0 the DOWN key subtracts exactly one; for an index of the scale
  table these are all the cases. Hence from index 0 every sequence of keys keeps the index
  within 0..7.
\<close>

theorem pitch_clamp:
  "(pitchindex (userdata s) = 7 \<longrightarrow> pitchindex (userdata (checkKey SDLK_UP s)) = 7)
   \<and> (pitchindex (userdata s) = 0 \<longrightarrow> pitchindex (userdata (checkKey SDLK_DOWN s)) = 0)
   \<and> (pitchindex (userdata s) < 7 \<longrightarrow>
        pitchindex (userdata (checkKey SDLK_UP s)) = pitchindex (userdata s) + 1)
   \<and> (0 < pitchindex (userdata s) \<longrightarrow>
        pitchindex (userdata (checkKey SDLK_DOWN s)) = pitchindex (userdata s) - 1)
   \<and> (pitchindex (userdata s) = 0 \<longrightarrow>
        0 \<le> pitchindex (userdata (fold checkKey keys s))
        \<and> pitchindex (userdata (fold checkKey keys s)) \<le> 7)"
proof -
  have "pitchindex (userdata s) = 0 \<longrightarrow>
        0 \<le> pitchindex (userdata (fold checkKey keys s))
        \<and> pitchindex (userdata (fold checkKey keys s)) \<le> 7"
    using fold_checkKey_pitchindex_range [of s keys] by simp
  then show ?thesis
    by (simp add: checkKey_def Let_def updateWavedata_def)
qed

theorem pitch_clamp_witness:
  "pitchindex (userdata (checkKey SDLK_DOWN initial_state)) = 0
   \<and> pitchindex (userdata (checkKey SDLK_UP initial_state)) = 1
   \<and> pitchindex (userdata (checkKey SDLK_UP
        (initial_state\<lparr>userdata := updateWavedata (userdata initial_state) 7\<rparr>))) = 7
   \<and> pitchindex (userdata (checkKey SDLK_DOWN
        (initial_state\<lparr>userdata := updateWavedata (userdata initial_state) 7\<rparr>))) = 6
   \<and> 0 \<le> pitchindex (userdata (fold checkKey [SDLK_DOWN, SDLK_UP, SDLK_UP] initial_state))
   \<and> pitchindex (userdata (fold checkKey [SDLK_DOWN, SDLK_UP, SDLK_UP] initial_state)) \<le> 7"
  using pitch_clamp [of initial_state "[SDLK_DOWN, SDLK_UP, SDLK_UP]"]
    pitch_clamp [of "initial_state\<lparr>userdata := updateWavedata (userdata initial_state) 7\<rparr>" "[]"]
  by (simp add: initial_state_def createWant_def updateWavedata_def)

text \<open>
  Claim C10 (the toggles are involutions). In a state whose mute flag is 0 or 1, the
  \<^verbatim>\<open>m\<close> key handled twice gives the state back; likewise BACKSPACE for the colorblind
  flag, and the \<^verbatim>\<open>i\<close> key for an instrument ratio that is one of the two presets. The
  whole state is restored, so every other field is unchanged. Every state the game can be
  in satisfies the three conditions (lemma \<open>reachable_state_inv\<close>).
\<close>

theorem toggles_involutive:
  "((mute s = 0 \<or> mute s = 1) \<longrightarrow> checkKey SDLK_m (checkKey SDLK_m s) = s)
   \<and> ((colorblind s = 0 \<or> colorblind s = 1) \<longrightarrow>
        checkKey SDLK_BACKSPACE (checkKey SDLK_BACKSPACE s) = s)
   \<and> ((instr s = PIANO \<or> instr s = GUITAR) \<longrightarrow> checkKey SDLK_i (checkKey SDLK_i s) = s)"
  by (auto simp: checkKey_def Let_def updateWavedata_def c_rem_def PIANO_def GUITAR_def)

theorem toggles_involutive_witness:
  "checkKey SDLK_m (checkKey SDLK_m initial_state) = initial_state
   \<and> checkKey SDLK_BACKSPACE (checkKey SDLK_BACKSPACE initial_state) = initial_state
   \<and> checkKey SDLK_i (checkKey SDLK_i initial_state) = initial_state"
  using toggles_involutive [of initial_state]
  by (simp add: initial_state_def)

lemma checkKey_i_simps:
  "instr (checkKey SDLK_i s) = (if instr s = PIANO then GUITAR else PIANO)"
  "userdata (checkKey SDLK_i s) = userdata s"
  by (simp_all add: checkKey_def Let_def updateWavedata_def)

lemma generateWaveform_ignores_modulator_pitch:
  "generateWaveform (s\<lparr>userdata := (userdata s)\<lparr>modulator_pitch := v\<rparr>\<rparr>) len =
     map_option (\<lambda>(dest, s'). (dest, s'\<lparr>userdata := (userdata s')\<lparr>modulator_pitch := v\<rparr>\<rparr>))
       (generateWaveform s len)"
  by (simp add: generateWaveform_def Let_def fill_buffer_eq)

text \<open>
  Claim C6 (instrument toggle). The \<^verbatim>\<open>i\<close> key turns the ratio 2 (piano) into 0.5
  (guitar) and 0.5 into 2, and leaves one of the two presets in any case. The modulator
  pitch of the next callback is the new ratio times \<open>pitches[pitchindex]\<close>: the callback
  renders and advances with this product, and the stored field \<open>modulator_pitch\<close> is
  never read, since a callback on a state with any other value in that field writes the
  same buffer and the same phases.
\<close>

theorem instrument_toggle:
  "(instr s = 2 \<longrightarrow> instr (checkKey SDLK_i s) = 0.5)
   \<and> (instr s = 0.5 \<longrightarrow> instr (checkKey SDLK_i s) = 2)
   \<and> (instr (checkKey SDLK_i s) = 2 \<or> instr (checkKey SDLK_i s) = 0.5)
   \<and> modulatorPitch (checkKey SDLK_i s) =
       instr (checkKey SDLK_i s) * pitches ! nat (pitchindex (userdata s))
   \<and> (0 \<le> len \<and> pitch_in_range s \<longrightarrow>
        generateWaveform (checkKey SDLK_i s) len =
          Some (rendered (checkKey SDLK_i s) (len div 2),
                advanced (checkKey SDLK_i s) (len div 2)))
   \<and> generateWaveform (s\<lparr>userdata := (userdata s)\<lparr>modulator_pitch := v\<rparr>\<rparr>) len =
       map_option (\<lambda>(dest, s'). (dest, s'\<lparr>userdata := (userdata s')\<lparr>modulator_pitch := v\<rparr>\<rparr>))
         (generateWaveform s len)"
proof -
  have swap: "(instr s = 2 \<longrightarrow> instr (checkKey SDLK_i s) = 0.5)
      \<and> (instr s = 0.5 \<longrightarrow> instr (checkKey SDLK_i s) = 2)
      \<and> (instr (checkKey SDLK_i s) = 2 \<or> instr (checkKey SDLK_i s) = 0.5)"
    by (simp add: checkKey_i_simps PIANO_def GUITAR_def)
  have pitch: "modulatorPitch (checkKey SDLK_i s) =
       instr (checkKey SDLK_i s) * pitches ! nat (pitchindex (userdata s))"
    by (simp add: modulatorPitch_def carrierPitch_def checkKey_i_simps(2))
  have render: "generateWaveform (checkKey SDLK_i s) len =
          Some (rendered (checkKey SDLK_i s) (len div 2),
                advanced (checkKey SDLK_i s) (len div 2))"
    if "0 \<le> len \<and> pitch_in_range s"
  proof (rule generateWaveform_advanced)
    from that show "0 \<le> len" by simp
    from that show "pitch_in_range (checkKey SDLK_i s)"
      by (simp add: pitch_in_range_def checkKey_i_simps(2))
  qed
  from swap pitch render generateWaveform_ignores_modulator_pitch
  show ?thesis by blast
qed

theorem instrument_toggle_witness:
  "instr (checkKey SDLK_i initial_state) = 0.5
   \<and> instr (checkKey SDLK_i (checkKey SDLK_i initial_state)) = 2
   \<and> modulatorPitch (checkKey SDLK_i initial_state) = 0.5 * 261.63
   \<and> generateWaveform (checkKey SDLK_i initial_state) 1600 =
       Some (rendered (checkKey SDLK_i initial_state) 800,
             advanced (checkKey SDLK_i initial_state) 800)"
proof -
  have i: "instr initial_state = 2" "pitches ! nat (pitchindex (userdata initial_state)) = 261.63"
    by (simp_all add: initial_state_def PIANO_def createWant_def pitches_def)
  have h: "(0::int) \<le> 1600 \<and> pitch_in_range initial_state"
    by (simp add: initial_in_range)
  have a: "instr (checkKey SDLK_i initial_state) = 0.5"
    using instrument_toggle [of initial_state 1600] i(1) by blast
  have b: "instr (checkKey SDLK_i (checkKey SDLK_i initial_state)) = 2"
    using instrument_toggle [of "checkKey SDLK_i initial_state" 1600] a by blast
  have c: "modulatorPitch (checkKey SDLK_i initial_state) =
       instr (checkKey SDLK_i initial_state) * pitches ! nat (pitchindex (userdata initial_state))"
    using instrument_toggle [of initial_state 1600] by blast
  have d: "generateWaveform (checkKey SDLK_i initial_state) 1600 =
       Some (rendered (checkKey SDLK_i initial_state) (1600 div 2),
             advanced (checkKey SDLK_i initial_state) (1600 div 2))"
    using instrument_toggle [of initial_state 1600] h by blast
  from a b c d show ?thesis
    by (simp add: i(2))
qed

text \<open>
  Claim C8 (field ownership). The callback writes the two phases only: the state after it
  is the state before it with new phases, so the pitch index, the instrument ratio, the
  mute and colorblind flags and the modulation amplitude are unchanged. The key handler
  writes only the pitch index, the instrument ratio, the two flags and the quit flag (and
  prints), and never the phases or the modulation amplitude. No field is written by both.
\<close>

theorem field_ownership:
  "(generateWaveform s len = Some (dest, s') \<longrightarrow>
      s' = s\<lparr>userdata := (userdata s)
              \<lparr>carrier_phase := carrier_phase (userdata s'),
               modulator_phase := modulator_phase (userdata s')\<rparr>\<rparr>
      \<and> pitchindex (userdata s') = pitchindex (userdata s)
      \<and> instr s' = instr s \<and> mute s' = mute s \<and> colorblind s' = colorblind s)
   \<and> checkKey key s =
        s\<lparr>quit := quit (checkKey key s), instr := instr (checkKey key s),
          colorblind := colorblind (checkKey key s), mute := mute (checkKey key s),
          userdata := (userdata s)\<lparr>pitchindex := pitchindex (userdata (checkKey key s))\<rparr>,
          printed := printed (checkKey key s)\<rparr>
   \<and> carrier_phase (userdata (checkKey key s)) = carrier_phase (userdata s)
   \<and> modulator_phase (userdata (checkKey key s)) = modulator_phase (userdata s)
   \<and> modulator_amplitude (userdata (checkKey key s)) = modulator_amplitude (userdata s)"
proof -
  have render: "generateWaveform s len = Some (dest, s') \<longrightarrow>
      s' = s\<lparr>userdata := (userdata s)
              \<lparr>carrier_phase := carrier_phase (userdata s'),
               modulator_phase := modulator_phase (userdata s')\<rparr>\<rparr>"
  proof
    assume g: "generateWaveform s len = Some (dest, s')"
    then have "0 \<le> len" "pitch_in_range s"
      using generateWaveform_SomeD by blast+
    from g generateWaveform_eq [OF this] show "s' = s\<lparr>userdata := (userdata s)
              \<lparr>carrier_phase := carrier_phase (userdata s'),
               modulator_phase := modulator_phase (userdata s')\<rparr>\<rparr>"
      by auto
  qed
  have fields: "generateWaveform s len = Some (dest, s') \<longrightarrow>
      pitchindex (userdata s') = pitchindex (userdata s)
      \<and> instr s' = instr s \<and> mute s' = mute s \<and> colorblind s' = colorblind s"
  proof
    assume g: "generateWaveform s len = Some (dest, s')"
    with render have "s' = s\<lparr>userdata := (userdata s)
              \<lparr>carrier_phase := carrier_phase (userdata s'),
               modulator_phase := modulator_phase (userdata s')\<rparr>\<rparr>" by simp
    then have "pitchindex (userdata s') = pitchindex (userdata (s\<lparr>userdata := (userdata s)
              \<lparr>carrier_phase := carrier_phase (userdata s'),
               modulator_phase := modulator_phase (userdata s')\<rparr>\<rparr>))"
       "instr s' = instr (s\<lparr>userdata := (userdata s)
              \<lparr>carrier_phase := carrier_phase (userdata s'),
               modulator_phase := modulator_phase (userdata s')\<rparr>\<rparr>)"
       "mute s' = mute (s\<lparr>userdata := (userdata s)
              \<lparr>carrier_phase := carrier_phase (userdata s'),
               modulator_phase := modulator_phase (userdata s')\<rparr>\<rparr>)"
       "colorblind s' = colorblind (s\<lparr>userdata := (userdata s)
              \<lparr>carrier_phase := carrier_phase (userdata s'),
               modulator_phase := modulator_phase (userdata s')\<rparr>\<rparr>)"
      by simp_all
    then show "pitchindex (userdata s') = pitchindex (userdata s)
      \<and> instr s' = instr s \<and> mute s' = mute s \<and> colorblind s' = colorblind s"
      by simp
  qed
  have key: "checkKey key s =
        s\<lparr>quit := quit (checkKey key s), instr := instr (checkKey key s),
          colorblind := colorblind (checkKey key s), mute := mute (checkKey key s),
          userdata := (userdata s)\<lparr>pitchindex := pitchindex (userdata (checkKey key s))\<rparr>,
          printed := printed (checkKey key s)\<rparr>"
    by (simp add: checkKey_def Let_def updateWavedata_def)
  have phases: "carrier_phase (userdata (checkKey key s)) = carrier_phase (userdata s)
   \<and> modulator_phase (userdata (checkKey key s)) = modulator_phase (userdata s)
   \<and> modulator_amplitude (userdata (checkKey key s)) = modulator_amplitude (userdata s)"
    by (simp add: checkKey_def Let_def updateWavedata_def)
  from render fields key phases show ?thesis by blast
qed

theorem field_ownership_witness:
  "generateWaveform initial_state 1600 =
     Some (rendered initial_state 800, advanced initial_state 800)
   \<and> pitchindex (userdata (advanced initial_state 800)) = 0
   \<and> instr (advanced initial_state 800) = instr initial_state
   \<and> mute (advanced initial_state 800) = 0
   \<and> colorblind (advanced initial_state 800) = 0"
proof -
  have g: "generateWaveform initial_state 1600 =
      Some (rendered initial_state 800, advanced initial_state 800)"
    using generateWaveform_advanced [of 1600 initial_state] by (simp add: initial_in_range)
  have v: "pitchindex (userdata initial_state) = 0" "mute initial_state = 0"
    "colorblind initial_state = 0"
    by (simp_all add: initial_state_def createWant_def)
  have "pitchindex (userdata (advanced initial_state 800)) = pitchindex (userdata initial_state)
      \<and> instr (advanced initial_state 800) = instr initial_state
      \<and> mute (advanced initial_state 800) = mute initial_state
      \<and> colorblind (advanced initial_state 800) = colorblind initial_state"
    using field_ownership [of initial_state 1600 "rendered initial_state 800"
        "advanced initial_state 800" SDLK_UP] g
    by blast
  with g show ?thesis
    by (simp only: v)
qed

subsection \<open>The value of each sample\<close>

lemma sin_coeff_sum7: "(\<Sum>m<7. sin_coeff m * x ^ m) = x - x ^ 3 / 6 + x ^ 5 / 120" for x :: real
proof -
  have c: "sin_coeff (Suc 0) = 1" "sin_coeff 2 = 0" "sin_coeff 3 = - 1 / 6"
    "sin_coeff 4 = 0" "sin_coeff 5 = 1 / 120" "sin_coeff 6 = 0"
    by (simp_all add: sin_coeff_def fact_numeral)
  have "{..<7::nat} = {0, 1, 2, 3, 4, 5, 6}"
    by auto
  then show ?thesis
    by (simp add: c)
qed

lemma sin_two_fifths_bounds:
  "38941833 / 100000000 < sin (2 / 5 :: real) \<and> sin (2 / 5 :: real) < 389419 / 1000000"
proof -
  obtain t where t: "sin (2 / 5 :: real) =
      (\<Sum>m<7. sin_coeff m * (2 / 5) ^ m) + (sin (t + 1 / 2 * real 7 * pi) / fact 7) * (2 / 5) ^ 7"
    using Maclaurin_sin_expansion [of "2 / 5" 7] by blast
  have r: "\<bar>sin (t + 1 / 2 * real 7 * pi)\<bar> \<le> 1"
    by (rule abs_sin_le_one)
  have "\<bar>(sin (t + 1 / 2 * real 7 * pi) / fact 7) * (2 / 5 :: real) ^ 7\<bar>
      = \<bar>sin (t + 1 / 2 * real 7 * pi)\<bar> * ((2 / 5) ^ 7 / fact 7)"
    by (simp add: abs_mult)
  also have "\<dots> \<le> 1 * ((2 / 5) ^ 7 / fact 7)"
    by (rule mult_right_mono [OF r]) simp
  finally have e: "\<bar>(sin (t + 1 / 2 * real 7 * pi) / fact 7) * (2 / 5 :: real) ^ 7\<bar>
      \<le> (2 / 5) ^ 7 / 5040"
    by (simp add: fact_numeral)
  have s: "(\<Sum>m<7. sin_coeff m * (2 / 5 :: real) ^ m) = 2 / 5 - (2 / 5) ^ 3 / 6 + (2 / 5) ^ 5 / 120"
    by (rule sin_coeff_sum7)
  from t e s have "\<bar>sin (2 / 5 :: real) - (2 / 5 - (2 / 5) ^ 3 / 6 + (2 / 5) ^ 5 / 120)\<bar>
      \<le> (2 / 5) ^ 7 / 5040"
    by simp
  then have "\<bar>sin (2 / 5 :: real) - 18254 / 46875\<bar> \<le> 8 / 24609375"
    by (simp add: power_divide)
  then show ?thesis
    by linarith
qed

lemma trunc0_first_sample: "trunc0 (32767 * sin (2 / 5 :: real)) = 12760"
proof -
  have "12760 < 32767 * sin (2 / 5 :: real)" "32767 * sin (2 / 5 :: real) < 12761"
    using sin_two_fifths_bounds by simp_all
  then have "\<lfloor>32767 * sin (2 / 5 :: real)\<rfloor> = 12760" "0 \<le> 32767 * sin (2 / 5 :: real)"
    by (simp_all add: floor_eq_iff)
  then show ?thesis
    by (simp add: trunc0_def)
qed

lemma first_sample_not_integer: "32767 * sin (2 / 5 :: real) \<noteq> 12760"
  using sin_two_fifths_bounds by simp

lemma initial_values:
  "modulator_amplitude (userdata initial_state) = 0.4"
  "instr initial_state = 2"
  "pitches ! nat (pitchindex (userdata initial_state)) = 261.63"
  "modulator_phase (userdata initial_state) = 0"
  "carrier_phase (userdata initial_state) = 0"
  by (simp_all add: initial_state_def createWant_def PIANO_def pitches_def)

lemma generateWaveform_samples:
  assumes "generateWaveform s len = Some (dest, s')"
  shows "length dest = nat (len div 2)"
    and "0 \<le> i \<Longrightarrow> i < len div 2 \<Longrightarrow>
         sint (dest ! nat i) =
           trunc0 (fm_sample 32767 (modulator_amplitude (userdata s))
             (instr s * pitches ! nat (pitchindex (userdata s))) (modulator_phase (userdata s))
             (pitches ! nat (pitchindex (userdata s))) (carrier_phase (userdata s)) i)"
proof -
  from assms have "0 \<le> len" "pitch_in_range s"
    using generateWaveform_SomeD by blast+
  from assms generateWaveform_advanced [OF this] have d: "dest = rendered s (len div 2)"
    by simp
  show "length dest = nat (len div 2)"
    by (simp add: d length_rendered)
  assume i: "0 \<le> i" "i < len div 2"
  have b: "- 32768 \<le> trunc0 (fm_sample 32767 (modulator_amplitude (userdata s))
             (modulatorPitch s) (modulator_phase (userdata s))
             (carrierPitch s) (carrier_phase (userdata s)) i)"
     "trunc0 (fm_sample 32767 (modulator_amplitude (userdata s))
             (modulatorPitch s) (modulator_phase (userdata s))
             (carrierPitch s) (carrier_phase (userdata s)) i) \<le> 32767"
    using trunc0_fm_sample_bounds [of "modulator_amplitude (userdata s)" "modulatorPitch s"
        "modulator_phase (userdata s)" "carrierPitch s" "carrier_phase (userdata s)" i]
    by simp_all
  show "sint (dest ! nat i) =
           trunc0 (fm_sample 32767 (modulator_amplitude (userdata s))
             (instr s * pitches ! nat (pitchindex (userdata s))) (modulator_phase (userdata s))
             (pitches ! nat (pitchindex (userdata s))) (carrier_phase (userdata s)) i)"
    using sint_short_of_int [OF b]
    by (simp add: d rendered_nth [OF i] modulatorPitch_def carrierPitch_def)
qed

lemma initial_first_sample:
  "fm_sample 32767 (modulator_amplitude (userdata initial_state))
     (instr initial_state * pitches ! nat (pitchindex (userdata initial_state)))
     (modulator_phase (userdata initial_state))
     (pitches ! nat (pitchindex (userdata initial_state)))
     (carrier_phase (userdata initial_state)) 0 = 0"
  by (simp add: initial_values fm_sample_def)

lemma trunc0_zero: "trunc0 0 = 0"
  by (simp add: trunc0_def)

lemma sin_two_fifths_pos: "0 < sin (0.4 :: real)"
  using sin_two_fifths_bounds by simp

lemma phase_two_fifths_values:
  "pitch_in_range phase_two_fifths"
  "fm_sample 32767 (modulator_amplitude (userdata phase_two_fifths))
     (instr phase_two_fifths * pitches ! nat (pitchindex (userdata phase_two_fifths)))
     (modulator_phase (userdata phase_two_fifths))
     (pitches ! nat (pitchindex (userdata phase_two_fifths)))
     (carrier_phase (userdata phase_two_fifths)) 0 = 32767 * sin 0.4"
  using initial_in_range
  by (simp_all add: phase_two_fifths_def pitch_in_range_def fm_sample_def initial_values)

text \<open>
  Claim C1 (the sample formula), as amended. The callback returns a buffer for every state
  with pitch index in range and every byte count that is not negative. The buffer has
  \<open>S = len div 2\<close> samples, and the sample of index \<open>i\<close> is the value
  \<open>32767 * sin (modulatorAmplitude * sin (2\<pi> * modulatorPitch * i / 48000 + modulatorPhase)
  + 2\<pi> * carrierPitch * i / 48000 + carrierPhase)\<close>, with
  \<open>carrierPitch = pitches[pitchindex]\<close> and \<open>modulatorPitch = instr * carrierPitch\<close>,
  converted to \<^verbatim>\<open>short\<close>, that is, with its fractional part discarded. From the
  initial state the first sample of a buffer of 800 samples is
  \<open>32767 * sin (0.4 * sin 0 + 0) = 0\<close>.
\<close>

theorem sample_formula:
  "(0 \<le> len \<and> pitch_in_range s \<longrightarrow> (\<exists>dest s'. generateWaveform s len = Some (dest, s')))
   \<and> (generateWaveform s len = Some (dest, s') \<longrightarrow>
        length dest = nat (len div 2)
        \<and> (\<forall>i. 0 \<le> i \<and> i < len div 2 \<longrightarrow>
              sint (dest ! nat i) =
                trunc0 (fm_sample 32767 (modulator_amplitude (userdata s))
                  (instr s * pitches ! nat (pitchindex (userdata s)))
                  (modulator_phase (userdata s))
                  (pitches ! nat (pitchindex (userdata s)))
                  (carrier_phase (userdata s)) i)))
   \<and> (\<exists>dest s'. generateWaveform initial_state 1600 = Some (dest, s')
          \<and> length dest = 800
          \<and> fm_sample 32767 0.4 (2 * 261.63) 0 261.63 0 0 = 32767 * sin (0.4 * sin 0 + 0)
          \<and> sint (dest ! 0) = 0)"
proof -
  have total: "\<exists>dest s'. generateWaveform s len = Some (dest, s')"
    if "0 \<le> len \<and> pitch_in_range s"
    using that generateWaveform_advanced [of len s] by simp
  have samples: "length dest = nat (len div 2)
        \<and> (\<forall>i. 0 \<le> i \<and> i < len div 2 \<longrightarrow>
              sint (dest ! nat i) =
                trunc0 (fm_sample 32767 (modulator_amplitude (userdata s))
                  (instr s * pitches ! nat (pitchindex (userdata s)))
                  (modulator_phase (userdata s))
                  (pitches ! nat (pitchindex (userdata s)))
                  (carrier_phase (userdata s)) i))"
    if "generateWaveform s len = Some (dest, s')"
    using generateWaveform_samples [OF that] by blast
  have g: "generateWaveform initial_state 1600 =
      Some (rendered initial_state 800, advanced initial_state 800)"
    using generateWaveform_advanced [of 1600 initial_state] by (simp add: initial_in_range)
  have "sint (rendered initial_state 800 ! nat 0) = trunc0 0"
    using generateWaveform_samples(2) [OF g, of 0] by (simp only: initial_first_sample)
  then have z: "sint (rendered initial_state 800 ! 0) = 0"
    by (simp add: trunc0_zero)
  have f: "fm_sample 32767 0.4 (2 * 261.63) 0 261.63 0 0 = 32767 * sin (0.4 * sin 0 + 0)"
    by (simp add: fm_sample_def)
  from g z f have first: "\<exists>dest s'. generateWaveform initial_state 1600 = Some (dest, s')
          \<and> length dest = 800
          \<and> fm_sample 32767 0.4 (2 * 261.63) 0 261.63 0 0 = 32767 * sin (0.4 * sin 0 + 0)
          \<and> sint (dest ! 0) = 0"
    by (simp add: length_rendered)
  from total samples first show ?thesis by blast
qed

theorem sample_formula_witness:
  "generateWaveform initial_state 1600 =
     Some (rendered initial_state 800, advanced initial_state 800)
   \<and> length (rendered initial_state 800) = 800
   \<and> sint (rendered initial_state 800 ! nat 799) =
       trunc0 (fm_sample 32767 0.4 (2 * 261.63) 0 261.63 0 799)"
proof -
  have g: "generateWaveform initial_state 1600 =
      Some (rendered initial_state 800, advanced initial_state 800)"
    using generateWaveform_advanced [of 1600 initial_state] by (simp add: initial_in_range)
  have "(0::int) \<le> 799 \<and> (799::int) < 1600 div 2"
    by simp
  with g sample_formula [of 1600 initial_state "rendered initial_state 800"
      "advanced initial_state 800"]
  have "length (rendered initial_state 800) = nat (1600 div 2)
     \<and> sint (rendered initial_state 800 ! nat 799) =
                trunc0 (fm_sample 32767 (modulator_amplitude (userdata initial_state))
                  (instr initial_state * pitches ! nat (pitchindex (userdata initial_state)))
                  (modulator_phase (userdata initial_state))
                  (pitches ! nat (pitchindex (userdata initial_state)))
                  (carrier_phase (userdata initial_state)) 799)"
    by blast
  with g show ?thesis
    by (simp add: initial_values)
qed

text \<open>
  The claim as it was stated fails twice. From the initial state the first sample is 0 and
  not \<open>sin 0.4\<close> scaled, because the inner sine is \<open>sin 0 = 0\<close>. And a sample is the
  formula's value only up to the conversion to \<^verbatim>\<open>short\<close>: with the carrier phase at
  0.4 the formula gives \<open>32767 * sin 0.4\<close>, which lies strictly between 12760 and 12761,
  and the sample written is 12760.
\<close>

theorem sample_formula_counterexample:
  "sint (fst (the (generateWaveform initial_state 1600)) ! 0) = 0
   \<and> real_of_int (sint (fst (the (generateWaveform initial_state 1600)) ! 0))
       \<noteq> 32767 * sin 0.4
   \<and> sint (fst (the (generateWaveform phase_two_fifths 1600)) ! 0) = 12760
   \<and> fm_sample 32767 (modulator_amplitude (userdata phase_two_fifths))
       (instr phase_two_fifths * pitches ! nat (pitchindex (userdata phase_two_fifths)))
       (modulator_phase (userdata phase_two_fifths))
       (pitches ! nat (pitchindex (userdata phase_two_fifths)))
       (carrier_phase (userdata phase_two_fifths)) 0 = 32767 * sin 0.4
   \<and> real_of_int (sint (fst (the (generateWaveform phase_two_fifths 1600)) ! 0))
       \<noteq> 32767 * sin 0.4"
proof -
  have g: "generateWaveform initial_state 1600 =
      Some (rendered initial_state 800, advanced initial_state 800)"
    using generateWaveform_advanced [of 1600 initial_state] by (simp add: initial_in_range)
  have "sint (rendered initial_state 800 ! nat 0) = trunc0 0"
    using generateWaveform_samples(2) [OF g, of 0] by (simp only: initial_first_sample)
  then have a: "sint (fst (the (generateWaveform initial_state 1600)) ! 0) = 0"
    by (simp add: g trunc0_zero)
  have h: "generateWaveform phase_two_fifths 1600 =
      Some (rendered phase_two_fifths 800, advanced phase_two_fifths 800)"
    using generateWaveform_advanced [of 1600 phase_two_fifths]
    by (simp add: phase_two_fifths_values(1))
  have "sint (rendered phase_two_fifths 800 ! nat 0) = trunc0 (32767 * sin 0.4)"
    using generateWaveform_samples(2) [OF h, of 0]
    by (simp only: phase_two_fifths_values(2))
  then have b: "sint (fst (the (generateWaveform phase_two_fifths 1600)) ! 0) = 12760"
    using trunc0_first_sample by (simp add: h)
  have c: "32767 * sin (0.4 :: real) \<noteq> 12760" "32767 * sin (0.4 :: real) \<noteq> 0"
    using first_sample_not_integer sin_two_fifths_pos by simp_all
  from a b c phase_two_fifths_values(2) show ?thesis
    by simp
qed

subsection \<open>The envelope of the modulation amplitude\<close>

lemma sdltest_generateWaveform_amplitude:
  "sdltest_generateWaveform w len = Some (dest, w') \<Longrightarrow>
   t_modulator_amplitude w' = envelope_step (t_modulator_amplitude w)"
  by (auto simp: sdltest_generateWaveform_def Let_def envelope_step_def split: if_splits)

lemma sdltest_generateWaveform_total:
  "0 \<le> len \<Longrightarrow> \<exists>dest w'. sdltest_generateWaveform w len = Some (dest, w')"
  by (simp add: sdltest_generateWaveform_def Let_def)

lemma sdltest_callbacks_amplitude:
  "0 \<le> len \<Longrightarrow>
   map_option t_modulator_amplitude (sdltest_callbacks n len w) =
     Some ((envelope_step ^^ n) (t_modulator_amplitude w))"
proof (induction n arbitrary: w)
  case 0
  then show ?case by simp
next
  case (Suc n)
  from sdltest_generateWaveform_total [OF Suc.prems, of w]
  obtain dest w' where g: "sdltest_generateWaveform w len = Some (dest, w')"
    by blast
  have "map_option t_modulator_amplitude (sdltest_callbacks (Suc n) len w) =
      map_option t_modulator_amplitude (sdltest_callbacks n len w')"
    by (simp add: g)
  also have "\<dots> = Some ((envelope_step ^^ n) (t_modulator_amplitude w'))"
    by (rule Suc.IH [OF Suc.prems])
  also have "t_modulator_amplitude w' = envelope_step (t_modulator_amplitude w)"
    by (rule sdltest_generateWaveform_amplitude [OF g])
  finally show ?case
    by (simp add: funpow_swap1)
qed

lemma envelope_decay:
  "n \<le> 61 \<Longrightarrow> (envelope_step ^^ n) 0.4 = 0.4 - real n * 0.0066666666"
proof (induction n)
  case 0
  then show ?case by simp
next
  case (Suc n)
  then have n: "real n \<le> 60" and ih: "(envelope_step ^^ n) 0.4 = 0.4 - real n * 0.0066666666"
    by simp_all
  from n have pos: "0.4 - real n * (0.0066666666 :: real) > 0"
    by simp
  have "(envelope_step ^^ Suc n) 0.4 = envelope_step (0.4 - real n * 0.0066666666)"
    by (simp only: funpow.simps o_apply ih)
  also have "\<dots> = 0.4 - real n * 0.0066666666 - 0.0066666666"
    using pos by (simp only: envelope_step_def if_True)
  also have "\<dots> = 0.4 - real (Suc n) * 0.0066666666"
    by (simp only: of_nat_Suc distrib_right mult_1 diff_diff_eq)
  finally show ?case .
qed

lemma envelope_cycle:
  "(envelope_step ^^ 60) 0.4 = 4 / 10 ^ 9"
  "(envelope_step ^^ 61) 0.4 = - (66666626 / 10 ^ 10)"
  "(envelope_step ^^ 62) 0.4 = 0.4"
proof -
  show "(envelope_step ^^ 60) 0.4 = 4 / 10 ^ 9"
    using envelope_decay [of 60] by simp
  show a: "(envelope_step ^^ 61) 0.4 = - (66666626 / 10 ^ 10)"
    using envelope_decay [of 61] by simp
  have "(62::nat) = Suc 61" by simp
  then have "(envelope_step ^^ 62) 0.4 = envelope_step ((envelope_step ^^ 61) 0.4)"
    by (simp only: funpow.simps o_apply)
  also have "\<dots> = envelope_step (- (66666626 / 10 ^ 10))"
    by (simp only: a)
  also have "\<dots> = 0.4"
    by (simp add: envelope_step_def)
  finally show "(envelope_step ^^ 62) 0.4 = 0.4" .
qed

text \<open>
  Claim C5 (the envelope), as amended. In \<^verbatim>\<open>sdltest.c\<close> every callback lowers a
  positive modulation amplitude by the step 0.0066666666, so that it strictly decreases,
  and sets an amplitude that is zero or negative back to the maximum 0.4; the callback
  returns for every byte count that is not negative. In \<^verbatim>\<open>theremingame.c\<close> the two
  statements are commented out and the callback leaves the modulation amplitude as it is.
\<close>

theorem envelope:
  "(sdltest_generateWaveform w len = Some (dest, w') \<longrightarrow>
      (0 < t_modulator_amplitude w \<longrightarrow>
         t_modulator_amplitude w' = t_modulator_amplitude w - 0.0066666666
         \<and> t_modulator_amplitude w' < t_modulator_amplitude w)
      \<and> (t_modulator_amplitude w \<le> 0 \<longrightarrow> t_modulator_amplitude w' = 0.4))
   \<and> (0 \<le> len \<longrightarrow> (\<exists>dest w'. sdltest_generateWaveform w len = Some (dest, w')))
   \<and> (generateWaveform s len = Some (buf, s') \<longrightarrow>
        modulator_amplitude (userdata s') = modulator_amplitude (userdata s))"
proof -
  have a: "(0 < t_modulator_amplitude w \<longrightarrow>
         t_modulator_amplitude w' = t_modulator_amplitude w - 0.0066666666
         \<and> t_modulator_amplitude w' < t_modulator_amplitude w)
      \<and> (t_modulator_amplitude w \<le> 0 \<longrightarrow> t_modulator_amplitude w' = 0.4)"
    if "sdltest_generateWaveform w len = Some (dest, w')"
    using sdltest_generateWaveform_amplitude [OF that] by (simp add: envelope_step_def)
  have b: "\<exists>dest w'. sdltest_generateWaveform w len = Some (dest, w')" if "0 \<le> len"
    using that by (rule sdltest_generateWaveform_total)
  have c: "modulator_amplitude (userdata s') = modulator_amplitude (userdata s)"
    if g: "generateWaveform s len = Some (buf, s')"
  proof -
    from g have "0 \<le> len" "pitch_in_range s"
      using generateWaveform_SomeD by blast+
    from g generateWaveform_advanced [OF this] have "s' = advanced s (len div 2)"
      by simp
    then show ?thesis
      by (simp add: advanced_simps)
  qed
  from a b c show ?thesis by blast
qed

theorem envelope_witness:
  "t_modulator_amplitude (snd (the (sdltest_generateWaveform sdltest_initial 3200)))
     = 0.4 - 0.0066666666
   \<and> t_modulator_amplitude (snd (the (sdltest_generateWaveform
        (sdltest_initial\<lparr>t_modulator_amplitude := 0\<rparr>) 3200))) = 0.4
   \<and> modulator_amplitude (userdata (advanced initial_state 800)) = 0.4"
proof -
  have l: "(0::int) \<le> 3200" by simp
  have g1: "sdltest_generateWaveform sdltest_initial 3200 =
      Some (the (sdltest_generateWaveform sdltest_initial 3200))"
    using sdltest_generateWaveform_total [OF l, of sdltest_initial] by auto
  have g2: "sdltest_generateWaveform (sdltest_initial\<lparr>t_modulator_amplitude := 0\<rparr>) 3200 =
      Some (the (sdltest_generateWaveform (sdltest_initial\<lparr>t_modulator_amplitude := 0\<rparr>) 3200))"
    using sdltest_generateWaveform_total [OF l, of "sdltest_initial\<lparr>t_modulator_amplitude := 0\<rparr>"]
    by auto
  have g3: "generateWaveform initial_state 1600 =
      Some (rendered initial_state 800, advanced initial_state 800)"
    using generateWaveform_advanced [of 1600 initial_state] by (simp add: initial_in_range)
  have v: "t_modulator_amplitude sdltest_initial = 0.4"
    "t_modulator_amplitude (sdltest_initial\<lparr>t_modulator_amplitude := 0\<rparr>) = 0"
    by (simp_all add: sdltest_initial_def)
  have p: "(0::real) < 0.4" "(0::real) \<le> 0" by simp_all
  have a: "t_modulator_amplitude (snd (the (sdltest_generateWaveform sdltest_initial 3200)))
     = 0.4 - 0.0066666666"
    using envelope [of sdltest_initial 3200
        "fst (the (sdltest_generateWaveform sdltest_initial 3200))"
        "snd (the (sdltest_generateWaveform sdltest_initial 3200))"] g1 p(1)
    by (simp add: v)
  have b: "t_modulator_amplitude (snd (the (sdltest_generateWaveform
        (sdltest_initial\<lparr>t_modulator_amplitude := 0\<rparr>) 3200))) = 0.4"
    using envelope [of "sdltest_initial\<lparr>t_modulator_amplitude := 0\<rparr>" 3200
        "fst (the (sdltest_generateWaveform (sdltest_initial\<lparr>t_modulator_amplitude := 0\<rparr>) 3200))"
        "snd (the (sdltest_generateWaveform (sdltest_initial\<lparr>t_modulator_amplitude := 0\<rparr>) 3200))"]
      g2 p(2)
    by (simp add: v)
  have c: "modulator_amplitude (userdata (advanced initial_state 800)) = 0.4"
    using envelope [of _ 1600 _ _ initial_state "rendered initial_state 800"
        "advanced initial_state 800"] g3
    by (simp add: initial_values)
  from a b c show ?thesis by simp
qed

text \<open>
  The claim as it was stated fails on the game, whose callback leaves the amplitude at 0.4,
  and on the length of the cycle in the sound test: after 60 callbacks (one second at 60
  frames per second) the amplitude is still positive, \<open>4 / 10\<^sup>9\<close>, the 61st callback
  makes it negative and only the 62nd sets it back to 0.4.
\<close>

theorem envelope_counterexample:
  "modulator_amplitude (userdata (snd (the (generateWaveform initial_state 1600)))) = 0.4
   \<and> map_option t_modulator_amplitude (sdltest_callbacks 60 3200 sdltest_initial)
       = Some (4 / 10 ^ 9)
   \<and> map_option t_modulator_amplitude (sdltest_callbacks 61 3200 sdltest_initial)
       = Some (- (66666626 / 10 ^ 10))
   \<and> map_option t_modulator_amplitude (sdltest_callbacks 62 3200 sdltest_initial)
       = Some 0.4"
proof -
  have g: "generateWaveform initial_state 1600 =
      Some (rendered initial_state 800, advanced initial_state 800)"
    using generateWaveform_advanced [of 1600 initial_state] by (simp add: initial_in_range)
  have a: "modulator_amplitude (userdata (snd (the (generateWaveform initial_state 1600)))) = 0.4"
    by (simp add: g advanced_simps initial_values)
  have l: "(0::int) \<le> 3200" by simp
  have v: "t_modulator_amplitude sdltest_initial = 0.4"
    by (simp add: sdltest_initial_def)
  show ?thesis
    using a by (simp only: sdltest_callbacks_amplitude [OF l] v envelope_cycle)
qed

end
